theory Spec2Isabelle
  imports Complex_Main
begin

section \<open>Crystal growth simulator: the compute and render pipeline\<close>

text \<open>
  The program (\<^verbatim>\<open>CrystalC++.cpp\<close>) uploads a particle buffer to the device, and on
  every frame optionally dispatches a compute shader on it and draws points.
  The embedding below follows the source function by function. Two conventions:

  \<^item> \<^verbatim>\<open>float\<close> values are modelled by \<^typ>\<open>real\<close>: rounding is not modelled. The
    statements proved below are about which cells are written, which commands are
    issued and with which arguments; the only arithmetic facts they use are
    that a product with zero is zero and that adding zero changes nothing.
  \<^item> \<^verbatim>\<open>MAX_PARTICLES\<close> is a compile-time constant of the source (100). The
    functions take the particle count as their first argument \<open>n\<close>, so that a
    statement about every count can be written; the program itself is the
    instance \<open>n = MAX_PARTICLES\<close>.
\<close>

subsection \<open>Simulation settings\<close>

definition MAX_PARTICLES :: nat where
  "MAX_PARTICLES = 100"

text \<open>\<^verbatim>\<open>layout(local_size_x = 256) in;\<close> of the compute shader.\<close>

definition local_size_x :: nat where
  "local_size_x = 256"

subsection \<open>Vectors and matrices\<close>

type_synonym vec3 = "real \<times> real \<times> real"
type_synonym vec4 = "real \<times> real \<times> real \<times> real"

text \<open>A \<^verbatim>\<open>glm::mat4\<close> is column-major: four columns.\<close>

type_synonym mat4 = "vec4 \<times> vec4 \<times> vec4 \<times> vec4"

fun vadd :: "vec3 \<Rightarrow> vec3 \<Rightarrow> vec3" where
  "vadd (a, b, c) (x, y, z) = (a + x, b + y, c + z)"

fun vscale :: "vec3 \<Rightarrow> real \<Rightarrow> vec3" where
  "vscale (x, y, z) k = (x * k, y * k, z * k)"

fun mat4_mul_vec4 :: "mat4 \<Rightarrow> vec4 \<Rightarrow> vec4" where
  "mat4_mul_vec4 ((a0, a1, a2, a3), (b0, b1, b2, b3), (c0, c1, c2, c3), (d0, d1, d2, d3))
       (x, y, z, w) =
     (a0 * x + b0 * y + c0 * z + d0 * w,
      a1 * x + b1 * y + c1 * z + d1 * w,
      a2 * x + b2 * y + c2 * z + d2 * w,
      a3 * x + b3 * y + c3 * z + d3 * w)"

subsection \<open>The particle buffer\<close>

text \<open>
  The data store of the buffer object \<^verbatim>\<open>particleBuffer\<close> is a sequence of 4-byte
  float cells. A cell is \<open>None\<close> while nothing has been written to it
  (\<^verbatim>\<open>glBufferData\<close> with a null pointer leaves the contents undefined).
\<close>

type_synonym cell = "real option"

definition sizeof_float :: nat where
  "sizeof_float = 4"

text \<open>\<^verbatim>\<open>sizeof(glm::vec3)\<close>: three packed floats, 12 bytes.\<close>

definition sizeof_vec3 :: nat where
  "sizeof_vec3 = 3 * sizeof_float"

text \<open>\<^verbatim>\<open>std::vector<glm::vec3>::data()\<close>: the vectors laid out one after the other.\<close>

fun cells_of :: "vec3 \<Rightarrow> cell list" where
  "cells_of (x, y, z) = [Some x, Some y, Some z]"

definition data :: "vec3 list \<Rightarrow> cell list" where
  "data vs = concat (map cells_of vs)"

text \<open>Size of a data store in bytes.\<close>

definition buffer_size :: "cell list \<Rightarrow> nat" where
  "buffer_size buf = sizeof_float * length buf"

text \<open>\<^verbatim>\<open>glBufferData(target, size, nullptr, usage)\<close>: a fresh store of \<open>size\<close> bytes.\<close>

definition glBufferData :: "nat \<Rightarrow> cell list" where
  "glBufferData nbytes = replicate (nbytes div sizeof_float) None"

text \<open>
  \<^verbatim>\<open>glBufferSubData(target, offset, size, src)\<close> overwrites the bytes
  \<open>offset ..< offset + size\<close>; when the range leaves the store the command
  raises \<^verbatim>\<open>GL_INVALID_VALUE\<close> and writes nothing.
\<close>

definition glBufferSubData :: "nat \<Rightarrow> nat \<Rightarrow> cell list \<Rightarrow> cell list \<Rightarrow> cell list" where
  "glBufferSubData offset nbytes src buf =
     (if offset + nbytes \<le> buffer_size buf
      then take (offset div sizeof_float) buf
           @ take (nbytes div sizeof_float) src
           @ drop ((offset + nbytes) div sizeof_float) buf
      else buf)"

text \<open>
  The two regions of the store as the host lays them out: the bytes
  \<open>0 ..< n * sizeof(vec3)\<close> and the \<open>n * sizeof(vec3)\<close> bytes after them.
\<close>

definition positions :: "nat \<Rightarrow> cell list \<Rightarrow> cell list" where
  "positions n buf = take (n * sizeof_vec3 div sizeof_float) buf"

definition velocities :: "nat \<Rightarrow> cell list \<Rightarrow> cell list" where
  "velocities n buf =
     take (n * sizeof_vec3 div sizeof_float) (drop (n * sizeof_vec3 div sizeof_float) buf)"

subsection \<open>The compute shader\<close>

text \<open>
  The shader declares
  \<^verbatim>\<open>struct Particle { vec3 position; vec3 velocity; };\<close> and
  \<^verbatim>\<open>layout(std430, binding = 0) buffer ParticleBuffer { Particle particles[]; };\<close>.
  Under std430 a \<^verbatim>\<open>vec3\<close> is aligned to four floats, so \<^verbatim>\<open>particles[id]\<close>
  occupies eight cells starting at cell \<open>8 * id\<close>: \<^verbatim>\<open>position\<close> in cells 0 to 2 of
  the element, \<^verbatim>\<open>velocity\<close> in cells 4 to 6.
\<close>

definition particle_stride :: nat where
  "particle_stride = 8"

definition position_offset :: nat where
  "position_offset = 0"

definition velocity_offset :: nat where
  "velocity_offset = 4"

text \<open>Arithmetic on cells: an undefined operand gives an undefined result.\<close>

fun cell_mul :: "cell \<Rightarrow> real \<Rightarrow> cell" where
  "cell_mul (Some a) k = Some (a * k)"
| "cell_mul None k = None"

fun cell_add :: "cell \<Rightarrow> cell \<Rightarrow> cell" where
  "cell_add (Some a) (Some b) = Some (a + b)"
| "cell_add a b = None"

text \<open>
  One invocation of the shader's \<^verbatim>\<open>main\<close>, for \<^verbatim>\<open>gl_GlobalInvocationID.x\<close> equal to \<open>gid\<close>:
  \<^verbatim>\<open>particles[id].position += particles[id].velocity * deltaTime\<close>.
  An element that does not lie inside the store is an out-of-bounds access,
  whose behaviour is undefined: the result is \<open>None\<close>.
\<close>

definition shader_main :: "real \<Rightarrow> nat \<Rightarrow> cell list \<Rightarrow> cell list option" where
  "shader_main deltaTime gid buf =
     (let p = gid * particle_stride + position_offset;
          v = gid * particle_stride + velocity_offset
      in if v + 3 \<le> length buf
         then Some (buf[p := cell_add (buf ! p) (cell_mul (buf ! v) deltaTime),
                        p + 1 := cell_add (buf ! (p + 1)) (cell_mul (buf ! (v + 1)) deltaTime),
                        p + 2 := cell_add (buf ! (p + 2)) (cell_mul (buf ! (v + 2)) deltaTime)])
         else None)"

text \<open>
  The invocations of one dispatch. They run in parallel on the device; two
  different invocations touch disjoint cells, so running them one after the
  other gives the same store.
\<close>

fun invoke_all :: "real \<Rightarrow> nat list \<Rightarrow> cell list \<Rightarrow> cell list option" where
  "invoke_all deltaTime [] buf = Some buf"
| "invoke_all deltaTime (gid # ids) buf =
     (case shader_main deltaTime gid buf of
        None \<Rightarrow> None
      | Some buf' \<Rightarrow> invoke_all deltaTime ids buf')"

text \<open>
  The values of \<^verbatim>\<open>gl_GlobalInvocationID.x\<close> of a dispatch of \<open>num_groups_x\<close>
  work groups (the other two extents are 1 in the source).
\<close>

definition global_invocation_ids :: "nat \<Rightarrow> nat list" where
  "global_invocation_ids num_groups_x = [0 ..< num_groups_x * local_size_x]"

subsection \<open>Device state\<close>

text \<open>The two program objects of the source.\<close>

datatype program = computeShaderProgram | renderShaderProgram

text \<open>
  The commands that \<^verbatim>\<open>runComputeShader\<close>, \<^verbatim>\<open>renderParticles\<close> and \<^verbatim>\<open>display\<close>
  issue, with their arguments, in the order of issue. The log is how the
  statements below speak about what is invoked, with which argument, and in
  which order. (The commands of start-up are modelled by their effect alone,
  except \<^verbatim>\<open>glBindVertexArray\<close>, which the frame loop shares.)
\<close>

datatype call =
    UseProgram program
  | Uniform1f real
  | DispatchCompute nat nat nat
  | MemoryBarrier
  | Clear
  | UniformMatrix4fv mat4
  | BindVertexArray
  | DrawArrays nat nat
  | SwapBuffers
  | PollEvents

text \<open>
  The state of the device and of the process's output streams. The output
  target is kept as the points written to its colour plane (clip-space position
  and colour) and to its depth plane since the last clear; rasterisation is not
  modelled. \<open>cerr\<close> holds the lines that the source's own failure reports write;
  what the driver may send through \<^verbatim>\<open>debugCallback\<close> depends on the driver and
  is left out. \<open>cout\<close> holds the index and position of each line that
  \<^verbatim>\<open>initParticles\<close> prints.
\<close>

record gl_state =
  particleBuffer :: "cell list"
  computeLinked :: bool
  renderLinked :: bool
  currentProgram :: "program option"
  deltaTime_uniform :: real
  modelViewProjection :: mat4
  vaoBound :: bool
  colorPlane :: "(vec4 \<times> vec4) list"
  depthPlane :: "vec4 list"
  calls :: "call list"
  cerr :: "string list"
  cout :: "(nat \<times> vec3) list"

definition zero_vec4 :: vec4 where
  "zero_vec4 = (0, 0, 0, 0)"

text \<open>The state before \<^verbatim>\<open>initOpenGL\<close>: no store, no program, uniforms at zero.\<close>

definition gl_initial :: gl_state where
  "gl_initial =
     \<lparr>particleBuffer = [], computeLinked = False, renderLinked = False,
      currentProgram = None, deltaTime_uniform = 0,
      modelViewProjection = (zero_vec4, zero_vec4, zero_vec4, zero_vec4),
      vaoBound = False, colorPlane = [], depthPlane = [], calls = [],
      cerr = [], cout = []\<rparr>"

definition issue :: "call \<Rightarrow> gl_state \<Rightarrow> gl_state" where
  "issue c s = s\<lparr>calls := calls s @ [c]\<rparr>"

fun linked :: "program \<Rightarrow> gl_state \<Rightarrow> bool" where
  "linked computeShaderProgram s = computeLinked s"
| "linked renderShaderProgram s = renderLinked s"

text \<open>
  \<^verbatim>\<open>glUseProgram\<close>: a program that did not link cannot be made current
  (\<^verbatim>\<open>GL_INVALID_OPERATION\<close>), and the current program stays.
\<close>

definition glUseProgram :: "program \<Rightarrow> gl_state \<Rightarrow> gl_state" where
  "glUseProgram p s =
     (if linked p s then (issue (UseProgram p) s)\<lparr>currentProgram := Some p\<rparr>
      else issue (UseProgram p) s)"

text \<open>
  \<^verbatim>\<open>glUniform1f(glGetUniformLocation(computeShaderProgram, "deltaTime"), v)\<close>:
  the location is -1 when the program did not link, and the command then does
  nothing.
\<close>

definition glUniform1f :: "real \<Rightarrow> gl_state \<Rightarrow> gl_state" where
  "glUniform1f v s =
     (if computeLinked s \<and> currentProgram s = Some computeShaderProgram
      then (issue (Uniform1f v) s)\<lparr>deltaTime_uniform := v\<rparr>
      else issue (Uniform1f v) s)"

text \<open>
  \<^verbatim>\<open>glDispatchCompute(num_groups_x, 1, 1)\<close> runs one invocation of the compute
  shader for every global invocation id, with the uniform's current value;
  without a current compute program it raises \<^verbatim>\<open>GL_INVALID_OPERATION\<close> and
  runs nothing. The result is \<open>None\<close> when an invocation is undefined.
\<close>

definition glDispatchCompute :: "nat \<Rightarrow> gl_state \<Rightarrow> gl_state option" where
  "glDispatchCompute num_groups_x s =
     (if currentProgram s = Some computeShaderProgram
      then (case invoke_all (deltaTime_uniform s) (global_invocation_ids num_groups_x)
                   (particleBuffer s) of
              None \<Rightarrow> None
            | Some buf \<Rightarrow>
                Some ((issue (DispatchCompute num_groups_x 1 1) s)\<lparr>particleBuffer := buf\<rparr>))
      else Some (issue (DispatchCompute num_groups_x 1 1) s))"

text \<open>
  \<^verbatim>\<open>glMemoryBarrier(GL_SHADER_STORAGE_BARRIER_BIT)\<close> orders the shader's writes
  before later reads; in this sequential model it changes no value.
\<close>

definition glMemoryBarrier :: "gl_state \<Rightarrow> gl_state" where
  "glMemoryBarrier s = issue MemoryBarrier s"

definition glClear :: "gl_state \<Rightarrow> gl_state" where
  "glClear s = (issue Clear s)\<lparr>colorPlane := [], depthPlane := []\<rparr>"

definition glUniformMatrix4fv :: "mat4 \<Rightarrow> gl_state \<Rightarrow> gl_state" where
  "glUniformMatrix4fv m s =
     (if renderLinked s \<and> currentProgram s = Some renderShaderProgram
      then (issue (UniformMatrix4fv m) s)\<lparr>modelViewProjection := m\<rparr>
      else issue (UniformMatrix4fv m) s)"

definition glBindVertexArray :: "gl_state \<Rightarrow> gl_state" where
  "glBindVertexArray s = (issue BindVertexArray s)\<lparr>vaoBound := True\<rparr>"

text \<open>
  The source never enables a vertex attribute array (there is no
  \<^verbatim>\<open>glVertexAttribPointer\<close> and no \<^verbatim>\<open>glEnableVertexAttribArray\<close>), so the
  vertex shader's input \<^verbatim>\<open>position\<close> is the current generic attribute of
  location 0, whose initial value is \<open>(0, 0, 0, 1)\<close>.
\<close>

definition generic_attribute0 :: vec3 where
  "generic_attribute0 = (0, 0, 0)"

text \<open>
  The vertex shader: \<^verbatim>\<open>gl_Position = modelViewProjection * vec4(position, 1.0)\<close>,
  and the fragment shader: \<^verbatim>\<open>fragColor = vec4(1.0, 0.0, 0.0, 1.0)\<close>.
\<close>

fun vertex_main :: "mat4 \<Rightarrow> vec3 \<Rightarrow> vec4" where
  "vertex_main mvp (x, y, z) = mat4_mul_vec4 mvp (x, y, z, 1)"

definition fragment_main :: vec4 where
  "fragment_main = (1, 0, 0, 1)"

text \<open>
  \<^verbatim>\<open>glDrawArrays(GL_POINTS, first, count)\<close>: one point per vertex, written to the
  colour and depth planes, when the render program is current. Without it the
  shaders of the source do not run, and the model writes nothing.
\<close>

definition glDrawArrays :: "nat \<Rightarrow> nat \<Rightarrow> gl_state \<Rightarrow> gl_state" where
  "glDrawArrays first count s =
     (if currentProgram s = Some renderShaderProgram
      then (issue (DrawArrays first count) s)
             \<lparr>colorPlane := colorPlane s
                 @ map (\<lambda>i. (vertex_main (modelViewProjection s) generic_attribute0,
                              fragment_main)) [first ..< first + count],
              depthPlane := depthPlane s
                 @ map (\<lambda>i. vertex_main (modelViewProjection s) generic_attribute0)
                     [first ..< first + count]\<rparr>
      else issue (DrawArrays first count) s)"

subsection \<open>Start-up\<close>

text \<open>
  What the driver answers to \<^verbatim>\<open>GL_COMPILE_STATUS\<close> or \<^verbatim>\<open>GL_LINK_STATUS\<close>: success,
  or failure with the info log.
\<close>

datatype status = Success | Failure string

definition newline :: string where
  "newline = [CHR 0x0A]"

text \<open>\<^verbatim>\<open>checkShaderCompilation\<close>: on failure, a line on \<^verbatim>\<open>std::cerr\<close>; nothing else.\<close>

fun checkShaderCompilation :: "status \<Rightarrow> string \<Rightarrow> gl_state \<Rightarrow> gl_state" where
  "checkShaderCompilation Success shaderType s = s"
| "checkShaderCompilation (Failure infoLog) shaderType s =
     s\<lparr>cerr := cerr s
         @ [''Error compiling '' @ shaderType @ '' shader:'' @ newline @ infoLog]\<rparr>"

fun succeeded :: "status \<Rightarrow> bool" where
  "succeeded Success = True"
| "succeeded (Failure infoLog) = False"

fun report_link :: "status \<Rightarrow> string \<Rightarrow> gl_state \<Rightarrow> gl_state" where
  "report_link Success what s = s"
| "report_link (Failure infoLog) what s =
     s\<lparr>cerr := cerr s @ [''Error linking '' @ what @ '' program:'' @ newline @ infoLog]\<rparr>"

text \<open>
  \<^verbatim>\<open>initComputeShader\<close>: compile, check, link, and on a link failure a line on
  \<^verbatim>\<open>std::cerr\<close>. The function returns normally in every case.
\<close>

definition initComputeShader :: "status \<Rightarrow> status \<Rightarrow> gl_state \<Rightarrow> gl_state" where
  "initComputeShader compiled lnk s =
     report_link lnk ''compute shader''
       ((checkShaderCompilation compiled ''Compute'' s)\<lparr>computeLinked := succeeded lnk\<rparr>)"

definition initRenderShader :: "status \<Rightarrow> status \<Rightarrow> status \<Rightarrow> gl_state \<Rightarrow> gl_state" where
  "initRenderShader vertexCompiled fragmentCompiled lnk s =
     report_link lnk ''render shader''
       ((checkShaderCompilation fragmentCompiled ''Fragment''
          (checkShaderCompilation vertexCompiled ''Vertex'' s))\<lparr>renderLinked := succeeded lnk\<rparr>)"

text \<open>
  \<^verbatim>\<open>initParticles\<close>, with the two initial vectors of the source as parameters:
  the store is allocated with \<^verbatim>\<open>MAX_PARTICLES * sizeof(glm::vec3) * 2\<close> bytes, the
  positions are written at offset 0 and the velocities at offset
  \<^verbatim>\<open>MAX_PARTICLES * sizeof(glm::vec3)\<close>; then the first
  \<^verbatim>\<open>std::min(10, MAX_PARTICLES)\<close> positions are printed.
\<close>

definition initParticlesWith :: "nat \<Rightarrow> vec3 \<Rightarrow> vec3 \<Rightarrow> gl_state \<Rightarrow> gl_state" where
  "initParticlesWith n position velocity s =
     (let initialPositions = replicate n position;
          initialVelocities = replicate n velocity;
          buf0 = glBufferData (n * sizeof_vec3 * 2);
          buf1 = glBufferSubData 0 (n * sizeof_vec3) (data initialPositions) buf0;
          buf2 = glBufferSubData (n * sizeof_vec3) (n * sizeof_vec3)
                   (data initialVelocities) buf1
      in s\<lparr>particleBuffer := buf2,
            cout := cout s @ map (\<lambda>i. (i, initialPositions ! i)) [0 ..< min 10 n]\<rparr>)"

text \<open>The source's values: \<^verbatim>\<open>glm::vec3(0.0f)\<close> and \<^verbatim>\<open>glm::vec3(0.01f, 0.0f, 0.0f)\<close>.\<close>

definition initialPosition :: vec3 where
  "initialPosition = (0, 0, 0)"

definition initialVelocity :: vec3 where
  "initialVelocity = (0.01, 0, 0)"

definition initParticles :: "nat \<Rightarrow> gl_state \<Rightarrow> gl_state" where
  "initParticles n s = initParticlesWith n initialPosition initialVelocity s"

text \<open>
  The answers of the driver during start-up. \<^verbatim>\<open>initOpenGL\<close> also calls
  \<^verbatim>\<open>glewInit\<close> and enables the depth test; neither touches the state kept here.
\<close>

record driver =
  computeCompile :: status
  computeLink :: status
  vertexCompile :: status
  fragmentCompile :: status
  renderLink :: status

definition initOpenGL :: "nat \<Rightarrow> driver \<Rightarrow> gl_state \<Rightarrow> gl_state" where
  "initOpenGL n d s =
     glBindVertexArray
       (initParticles n
         (initRenderShader (vertexCompile d) (fragmentCompile d) (renderLink d)
           (initComputeShader (computeCompile d) (computeLink d) s)))"

subsection \<open>The frame\<close>

text \<open>
  \<^verbatim>\<open>runComputeShader(deltaTime)\<close>: use the program, set the uniform, dispatch
  \<^verbatim>\<open>MAX_PARTICLES / 256\<close> groups (integer division), then the barrier.
\<close>

definition runComputeShader :: "nat \<Rightarrow> real \<Rightarrow> gl_state \<Rightarrow> gl_state option" where
  "runComputeShader n deltaTime s =
     (case glDispatchCompute (n div 256)
             (glUniform1f deltaTime (glUseProgram computeShaderProgram s)) of
        None \<Rightarrow> None
      | Some s' \<Rightarrow> Some (glMemoryBarrier s'))"

definition renderParticles :: "nat \<Rightarrow> mat4 \<Rightarrow> gl_state \<Rightarrow> gl_state" where
  "renderParticles n mvp s =
     glDrawArrays 0 n
       (glBindVertexArray (glUniformMatrix4fv mvp (glUseProgram renderShaderProgram s)))"

text \<open>
  \<^verbatim>\<open>display\<close>. The matrix \<open>mvp\<close> is what \<^verbatim>\<open>glm::perspective\<close> and \<^verbatim>\<open>glm::lookAt\<close>
  return for the source's constants, multiplied; the two library functions are
  not part of the source, so the product is a parameter.
\<close>

definition glfwSwapBuffers :: "gl_state \<Rightarrow> gl_state" where
  "glfwSwapBuffers s = issue SwapBuffers s"

definition glfwPollEvents :: "gl_state \<Rightarrow> gl_state" where
  "glfwPollEvents s = issue PollEvents s"

definition display :: "nat \<Rightarrow> mat4 \<Rightarrow> gl_state \<Rightarrow> gl_state" where
  "display n mvp s = glfwPollEvents (glfwSwapBuffers (renderParticles n mvp (glClear s)))"

text \<open>
  What one iteration of the loop of \<^verbatim>\<open>main\<close> reads from outside: the clock
  (\<^verbatim>\<open>glfwGetTime()\<close>) and the two global variables \<^verbatim>\<open>paused\<close> and
  \<^verbatim>\<open>simulationSpeed\<close>. The source initialises them to \<^verbatim>\<open>false\<close> and \<^verbatim>\<open>1.0f\<close>; they
  are not constants, and their value at each iteration is an input here.
\<close>

record frame =
  currentTime :: real
  paused :: bool
  simulationSpeed :: real

text \<open>The loop's own state: the local variable \<^verbatim>\<open>lastTime\<close> and the device.\<close>

record sim =
  lastTime :: real
  gl :: gl_state

text \<open>
  The body of the loop:
  \<^verbatim>\<open>deltaTime = currentTime - lastTime; lastTime = currentTime;\<close>
  \<^verbatim>\<open>if (!paused) runComputeShader(deltaTime * simulationSpeed); display(window);\<close>
\<close>

definition loop_body :: "nat \<Rightarrow> mat4 \<Rightarrow> frame \<Rightarrow> sim \<Rightarrow> sim option" where
  "loop_body n mvp f st =
     (let deltaTime = currentTime f - lastTime st
      in case (if \<not> paused f
               then runComputeShader n (deltaTime * simulationSpeed f) (gl st)
               else Some (gl st)) of
           None \<Rightarrow> None
         | Some s \<Rightarrow> Some \<lparr>lastTime = currentTime f, gl = display n mvp s\<rparr>)"

text \<open>
  The loop runs while the window is open: one iteration for each element of
  the list of frames, which ends when \<^verbatim>\<open>glfwWindowShouldClose\<close> answers true.
\<close>

fun loop :: "nat \<Rightarrow> mat4 \<Rightarrow> frame list \<Rightarrow> sim \<Rightarrow> sim option" where
  "loop n mvp [] st = Some st"
| "loop n mvp (f # fs) st =
     (case loop_body n mvp f st of
        None \<Rightarrow> None
      | Some st' \<Rightarrow> loop n mvp fs st')"

subsection \<open>The program\<close>

text \<open>What the platform answers at start-up, and the first reading of the clock.\<close>

record platform =
  glfwInit_ok :: bool
  window_ok :: bool
  drv :: driver
  startTime :: real

text \<open>The result of \<^verbatim>\<open>main\<close>: the exit code and the final state.\<close>

record outcome =
  exit_code :: int
  final :: gl_state

definition main :: "nat \<Rightarrow> platform \<Rightarrow> mat4 \<Rightarrow> frame list \<Rightarrow> outcome option" where
  "main n pf mvp fs =
     (if \<not> glfwInit_ok pf
      then Some \<lparr>exit_code = - 1,
                 final = gl_initial\<lparr>cerr := [''Failed to initialize GLFW'']\<rparr>\<rparr>
      else if \<not> window_ok pf
      then Some \<lparr>exit_code = - 1,
                 final = gl_initial\<lparr>cerr := [''Failed to create GLFW window'']\<rparr>\<rparr>
      else (case loop n mvp fs
                   \<lparr>lastTime = startTime pf, gl = initOpenGL n (drv pf) gl_initial\<rparr> of
              None \<Rightarrow> None
            | Some st \<Rightarrow> Some \<lparr>exit_code = 0, final = gl st\<rparr>))"

subsection \<open>Vocabulary of the statements\<close>

text \<open>
  The commands of one iteration, read off \<^verbatim>\<open>runComputeShader\<close> and \<^verbatim>\<open>display\<close>:
  the four commands of the integration step when the frame is not paused, then
  the seven commands of the display. \<open>previous\<close> is the value of \<^verbatim>\<open>lastTime\<close> at
  the start of the iteration.
\<close>

definition frame_commands :: "nat \<Rightarrow> mat4 \<Rightarrow> real \<Rightarrow> frame \<Rightarrow> call list" where
  "frame_commands n mvp previous f =
     (if paused f then []
      else [UseProgram computeShaderProgram,
            Uniform1f ((currentTime f - previous) * simulationSpeed f),
            DispatchCompute (n div 256) 1 1,
            MemoryBarrier])
     @ [Clear, UseProgram renderShaderProgram, UniformMatrix4fv mvp, BindVertexArray,
        DrawArrays 0 n, SwapBuffers, PollEvents]"

fun loop_commands :: "nat \<Rightarrow> mat4 \<Rightarrow> real \<Rightarrow> frame list \<Rightarrow> call list" where
  "loop_commands n mvp previous [] = []"
| "loop_commands n mvp previous (f # fs) =
     frame_commands n mvp previous f @ loop_commands n mvp (currentTime f) fs"

text \<open>The lines that start-up writes to \<^verbatim>\<open>std::cerr\<close> for the driver's answers.\<close>

fun compile_diagnostic :: "string \<Rightarrow> status \<Rightarrow> string list" where
  "compile_diagnostic shaderType Success = []"
| "compile_diagnostic shaderType (Failure infoLog) =
     [''Error compiling '' @ shaderType @ '' shader:'' @ newline @ infoLog]"

fun link_diagnostic :: "string \<Rightarrow> status \<Rightarrow> string list" where
  "link_diagnostic what Success = []"
| "link_diagnostic what (Failure infoLog) =
     [''Error linking '' @ what @ '' program:'' @ newline @ infoLog]"

definition diagnostics :: "driver \<Rightarrow> string list" where
  "diagnostics d =
     compile_diagnostic ''Compute'' (computeCompile d)
     @ link_diagnostic ''compute shader'' (computeLink d)
     @ compile_diagnostic ''Vertex'' (vertexCompile d)
     @ compile_diagnostic ''Fragment'' (fragmentCompile d)
     @ link_diagnostic ''render shader'' (renderLink d)"

text \<open>
  The \<^verbatim>\<open>velocity\<close> member of \<^verbatim>\<open>particles[i]\<close> as the compute shader addresses it:
  three cells at \<open>i * particle_stride + velocity_offset\<close>.
\<close>

definition element_velocity :: "nat \<Rightarrow> cell list \<Rightarrow> cell list" where
  "element_velocity i buf = take 3 (drop (i * particle_stride + velocity_offset) buf)"

text \<open>Inputs for the examples: a driver and a platform that report no failure.\<close>

definition driver_ok :: driver where
  "driver_ok =
     \<lparr>computeCompile = Success, computeLink = Success, vertexCompile = Success,
      fragmentCompile = Success, renderLink = Success\<rparr>"

definition platform_ok :: platform where
  "platform_ok = \<lparr>glfwInit_ok = True, window_ok = True, drv = driver_ok, startTime = 0\<rparr>"

definition identity_mat4 :: mat4 where
  "identity_mat4 = ((1, 0, 0, 0), (0, 1, 0, 0), (0, 0, 1, 0), (0, 0, 0, 1))"

section \<open>Properties\<close>

subsection \<open>Auxiliary facts\<close>

lemma global_invocation_ids_0: "global_invocation_ids 0 = []"
  by (simp add: global_invocation_ids_def)

lemma glDispatchCompute_0: "glDispatchCompute 0 s = Some (issue (DispatchCompute 0 1 1) s)"
  by (simp add: glDispatchCompute_def global_invocation_ids_0 issue_def)

lemma runComputeShader_no_groups:
  "n div 256 = 0 \<Longrightarrow>
   runComputeShader n deltaTime s =
     Some (glMemoryBarrier (issue (DispatchCompute 0 1 1)
            (glUniform1f deltaTime (glUseProgram computeShaderProgram s))))"
  by (simp add: runComputeShader_def glDispatchCompute_0)

lemma MAX_PARTICLES_groups: "MAX_PARTICLES div 256 = 0"
  by (simp add: MAX_PARTICLES_def)

lemma particleBuffer_compute_commands:
  "particleBuffer (glMemoryBarrier (issue c (glUniform1f v (glUseProgram p s)))) = particleBuffer s"
  by (simp add: glMemoryBarrier_def issue_def glUniform1f_def glUseProgram_def)

lemma cerr_compute_commands:
  "cerr (glMemoryBarrier (issue c (glUniform1f v (glUseProgram p s)))) = cerr s"
  by (simp add: glMemoryBarrier_def issue_def glUniform1f_def glUseProgram_def)

lemma calls_compute_commands:
  "calls (glMemoryBarrier (issue c (glUniform1f v (glUseProgram p s)))) =
     calls s @ [UseProgram p, Uniform1f v, c, MemoryBarrier]"
  by (simp add: glMemoryBarrier_def issue_def glUniform1f_def glUseProgram_def)

lemma particleBuffer_renderParticles:
  "particleBuffer (renderParticles n mvp s) = particleBuffer s"
  by (simp add: renderParticles_def glDrawArrays_def glBindVertexArray_def
      glUniformMatrix4fv_def glUseProgram_def issue_def)

lemma particleBuffer_display: "particleBuffer (display n mvp s) = particleBuffer s"
  by (simp add: display_def glfwPollEvents_def glfwSwapBuffers_def issue_def
      particleBuffer_renderParticles glClear_def)

lemma cerr_display: "cerr (display n mvp s) = cerr s"
  by (simp add: display_def glfwPollEvents_def glfwSwapBuffers_def issue_def
      renderParticles_def glDrawArrays_def glBindVertexArray_def
      glUniformMatrix4fv_def glUseProgram_def glClear_def)

lemma calls_display:
  "calls (display n mvp s) =
     calls s @ [Clear, UseProgram renderShaderProgram, UniformMatrix4fv mvp, BindVertexArray,
                DrawArrays 0 n, SwapBuffers, PollEvents]"
  by (simp add: display_def glfwPollEvents_def glfwSwapBuffers_def issue_def
      renderParticles_def glDrawArrays_def glBindVertexArray_def
      glUniformMatrix4fv_def glUseProgram_def glClear_def)


lemma length_data: "length (data vs) = 3 * length vs"
  by (induction vs) (auto simp: data_def)

lemma particleBuffer_initParticlesWith:
  "particleBuffer (initParticlesWith n p v s) = data (replicate n p) @ data (replicate n v)"
proof -
  have a: "n * sizeof_vec3 div sizeof_float = 3 * n"
    by (simp add: sizeof_vec3_def sizeof_float_def)
  have b: "n * sizeof_vec3 * 2 div sizeof_float = 3 * n + 3 * n"
    by (simp add: sizeof_vec3_def sizeof_float_def)
  have c: "(n * sizeof_vec3 + n * sizeof_vec3) div sizeof_float = 3 * n + 3 * n"
    by (simp add: sizeof_vec3_def sizeof_float_def)
  have d: "n * sizeof_vec3 = sizeof_float * (3 * n)"
    by (simp add: sizeof_vec3_def sizeof_float_def)
  have buf1: "glBufferSubData 0 (n * sizeof_vec3) (data (replicate n p))
                (glBufferData (n * sizeof_vec3 * 2))
              = data (replicate n p) @ replicate (3 * n) None"
    unfolding glBufferSubData_def glBufferData_def buffer_size_def a b
    by (simp add: d length_data sizeof_float_def)
  have buf2: "glBufferSubData (n * sizeof_vec3) (n * sizeof_vec3) (data (replicate n v))
                (data (replicate n p) @ replicate (3 * n) None)
              = data (replicate n p) @ data (replicate n v)"
    unfolding glBufferSubData_def buffer_size_def a c
    by (simp add: d length_data sizeof_float_def)
  show ?thesis
    by (simp add: initParticlesWith_def Let_def buf1 buf2)
qed

lemma positions_append:
  "positions n (data (replicate n p) @ data (replicate n v)) = data (replicate n p)"
  by (simp add: positions_def sizeof_vec3_def sizeof_float_def length_data)

lemma velocities_append:
  "velocities n (data (replicate n p) @ data (replicate n v)) = data (replicate n v)"
  by (simp add: velocities_def sizeof_vec3_def sizeof_float_def length_data)

lemma loop_body_no_groups:
  assumes "n div 256 = 0"
  shows "\<exists>st'. loop_body n mvp f st = Some st'
           \<and> lastTime st' = currentTime f
           \<and> particleBuffer (gl st') = particleBuffer (gl st)
           \<and> cerr (gl st') = cerr (gl st)
           \<and> calls (gl st') = calls (gl st) @ frame_commands n mvp (lastTime st) f"
proof (cases "paused f")
  case True
  then show ?thesis
    by (simp add: loop_body_def frame_commands_def particleBuffer_display cerr_display
        calls_display)
next
  case False
  then show ?thesis
    using assms
    by (simp add: loop_body_def frame_commands_def runComputeShader_no_groups
        particleBuffer_display cerr_display calls_display particleBuffer_compute_commands
        cerr_compute_commands calls_compute_commands)
qed

lemma loop_no_groups:
  assumes "n div 256 = 0"
  shows "\<exists>st'. loop n mvp fs st = Some st'
           \<and> lastTime st' = last (lastTime st # map currentTime fs)
           \<and> particleBuffer (gl st') = particleBuffer (gl st)
           \<and> cerr (gl st') = cerr (gl st)
           \<and> calls (gl st') = calls (gl st) @ loop_commands n mvp (lastTime st) fs"
proof (induction fs arbitrary: st)
  case Nil
  show ?case by simp
next
  case (Cons f fs)
  from loop_body_no_groups [OF assms, of mvp f st]
  obtain st1 where st1: "loop_body n mvp f st = Some st1"
    "lastTime st1 = currentTime f"
    "particleBuffer (gl st1) = particleBuffer (gl st)"
    "cerr (gl st1) = cerr (gl st)"
    "calls (gl st1) = calls (gl st) @ frame_commands n mvp (lastTime st) f"
    by blast
  from Cons.IH [of st1]
  obtain st2 where st2: "loop n mvp fs st1 = Some st2"
    "lastTime st2 = last (lastTime st1 # map currentTime fs)"
    "particleBuffer (gl st2) = particleBuffer (gl st1)"
    "cerr (gl st2) = cerr (gl st1)"
    "calls (gl st2) = calls (gl st1) @ loop_commands n mvp (lastTime st1) fs"
    by blast
  show ?case
    using st1 st2 by simp
qed

lemma cerr_checkShaderCompilation:
  "cerr (checkShaderCompilation c t s) = cerr s @ compile_diagnostic t c"
  by (cases c) simp_all

lemma cerr_report_link: "cerr (report_link l w s) = cerr s @ link_diagnostic w l"
  by (cases l) simp_all

lemma calls_checkShaderCompilation: "calls (checkShaderCompilation c t s) = calls s"
  by (cases c) simp_all

lemma calls_report_link: "calls (report_link l w s) = calls s"
  by (cases l) simp_all

lemma particleBuffer_initOpenGL:
  "particleBuffer (initOpenGL n d s)
     = data (replicate n initialPosition) @ data (replicate n initialVelocity)"
  by (simp add: initOpenGL_def glBindVertexArray_def issue_def initParticles_def
      particleBuffer_initParticlesWith)

lemma cerr_initOpenGL: "cerr (initOpenGL n d gl_initial) = diagnostics d"
  by (simp add: initOpenGL_def glBindVertexArray_def issue_def initParticles_def
      initParticlesWith_def Let_def initRenderShader_def initComputeShader_def
      cerr_checkShaderCompilation cerr_report_link diagnostics_def gl_initial_def)

lemma calls_initOpenGL: "calls (initOpenGL n d gl_initial) = [BindVertexArray]"
  by (simp add: initOpenGL_def glBindVertexArray_def issue_def initParticles_def
      initParticlesWith_def Let_def initRenderShader_def initComputeShader_def
      calls_checkShaderCompilation calls_report_link gl_initial_def)

lemma main_no_groups:
  assumes "n div 256 = 0" and "glfwInit_ok pf" and "window_ok pf"
  shows "\<exists>out. main n pf mvp fs = Some out
           \<and> exit_code out = 0
           \<and> particleBuffer (final out)
               = data (replicate n initialPosition) @ data (replicate n initialVelocity)
           \<and> cerr (final out) = diagnostics (drv pf)
           \<and> calls (final out) = BindVertexArray # loop_commands n mvp (startTime pf) fs"
proof -
  from loop_no_groups [OF assms(1),
      of mvp fs "\<lparr>lastTime = startTime pf, gl = initOpenGL n (drv pf) gl_initial\<rparr>"]
  obtain st where st:
    "loop n mvp fs \<lparr>lastTime = startTime pf, gl = initOpenGL n (drv pf) gl_initial\<rparr> = Some st"
    "particleBuffer (gl st) = particleBuffer (initOpenGL n (drv pf) gl_initial)"
    "cerr (gl st) = cerr (initOpenGL n (drv pf) gl_initial)"
    "calls (gl st) = calls (initOpenGL n (drv pf) gl_initial)
                       @ loop_commands n mvp (startTime pf) fs"
    by auto
  show ?thesis
    using assms(2,3) st
    by (simp add: main_def particleBuffer_initOpenGL cerr_initOpenGL calls_initOpenGL)
qed

subsection \<open>The integration step\<close>

text \<open>
  C1. The claim: for every particle count, also one that is not a multiple of
  256 such as 100, one call of \<^verbatim>\<open>runComputeShader\<close> updates the position of every
  particle once. The code dispatches \<^verbatim>\<open>MAX_PARTICLES / 256\<close> groups with integer
  division: for the source's count of 100 that is no group at all, the dispatch
  has no invocation, and the call leaves the whole store as it was, whatever
  the store and the time step.
\<close>

theorem runComputeShader_dispatches_no_invocation:
  "MAX_PARTICLES div 256 = 0
   \<and> global_invocation_ids (MAX_PARTICLES div 256) = []
   \<and> (\<forall>deltaTime s. \<exists>s'. runComputeShader MAX_PARTICLES deltaTime s = Some s'
          \<and> particleBuffer s' = particleBuffer s)"
  by (simp add: MAX_PARTICLES_groups global_invocation_ids_0 runComputeShader_no_groups
      particleBuffer_compute_commands)

text \<open>
  C2. The claim: after \<open>k\<close> steps of the same \<open>delta_time\<close> every position is
  \<open>initial_position + initial_velocity * (k * delta_time)\<close>; with 4 particles at the
  origin, velocity \<open>(1, 0, 0)\<close> and 3 steps of 0.5 at speed 1, all positions
  are \<open>(1.5, 0, 0)\<close>. On the code, three frames 0.5 apart from a store of 4
  particles so initialised leave every position at the origin: a count of 4
  dispatches \<open>4 div 256 = 0\<close> groups.
\<close>

theorem three_steps_leave_positions_at_origin:
  "(\<forall>mvp. map_option (positions 4 \<circ> particleBuffer \<circ> gl)
      (loop 4 mvp
         [\<lparr>currentTime = 0.5, paused = False, simulationSpeed = 1\<rparr>,
          \<lparr>currentTime = 1, paused = False, simulationSpeed = 1\<rparr>,
          \<lparr>currentTime = 1.5, paused = False, simulationSpeed = 1\<rparr>]
         \<lparr>lastTime = 0,
          gl = initParticlesWith 4 (0, 0, 0) (1, 0, 0)
                 (initComputeShader Success Success gl_initial)\<rparr>)
     = Some (data (replicate 4 (0, 0, 0))))
   \<and> data (replicate 4 (0, 0, 0))
       \<noteq> data (replicate 4 (vadd (0, 0, 0) (vscale (1, 0, 0) (3 * 0.5))))"
proof -
  have g: "(4::nat) div 256 = 0" by simp
  have "map_option (positions 4 \<circ> particleBuffer \<circ> gl) (loop 4 mvp fs
          \<lparr>lastTime = 0, gl = initParticlesWith 4 (0, 0, 0) (1, 0, 0) s\<rparr>)
        = Some (data (replicate 4 (0, 0, 0)))" for mvp fs s
    using loop_no_groups [OF g, of mvp fs
        "\<lparr>lastTime = 0, gl = initParticlesWith 4 (0, 0, 0) (1, 0, 0) s\<rparr>"]
    by (auto simp: particleBuffer_initParticlesWith positions_append)
  moreover have "data (replicate 4 (0, 0, 0))
       \<noteq> data (replicate 4 (vadd (0, 0, 0) (vscale (1, 0, 0) (3 * 0.5))))"
    by (simp add: data_def eval_nat_numeral)
  ultimately show ?thesis by blast
qed

subsection \<open>The particle store\<close>

text \<open>
  C6. \<^verbatim>\<open>initParticles\<close> allocates one store of \<open>2 * n * sizeof(vec3)\<close> bytes, which
  is the positions region followed by the velocities region; every position is
  the origin and every velocity is \<open>(0.01, 0, 0)\<close>, a nonzero vector along the
  first axis.
\<close>

theorem initParticles_layout:
  "buffer_size (particleBuffer (initParticles n s)) = 2 * n * sizeof_vec3
   \<and> particleBuffer (initParticles n s)
       = positions n (particleBuffer (initParticles n s))
         @ velocities n (particleBuffer (initParticles n s))
   \<and> positions n (particleBuffer (initParticles n s)) = data (replicate n (0, 0, 0))
   \<and> velocities n (particleBuffer (initParticles n s)) = data (replicate n (0.01, 0, 0))
   \<and> (0.01, 0, 0) \<noteq> (0 :: real, 0 :: real, 0 :: real)"
  unfolding initParticles_def particleBuffer_initParticlesWith positions_append velocities_append
  by (simp add: buffer_size_def length_data sizeof_vec3_def sizeof_float_def
      initialPosition_def initialVelocity_def)

text \<open>
  C8. \<^verbatim>\<open>renderParticles\<close> does not change the particle store: the store (hence
  every position and every velocity in it) is the same before and after, as
  are the compute uniform, the link states and the output streams; and the draw
  command itself changes the colour plane, the depth plane and the command log,
  nothing else.
\<close>

theorem renderParticles_leaves_store:
  "particleBuffer (renderParticles n mvp s) = particleBuffer s
   \<and> deltaTime_uniform (renderParticles n mvp s) = deltaTime_uniform s
   \<and> computeLinked (renderParticles n mvp s) = computeLinked s
   \<and> renderLinked (renderParticles n mvp s) = renderLinked s
   \<and> cerr (renderParticles n mvp s) = cerr s
   \<and> cout (renderParticles n mvp s) = cout s
   \<and> glDrawArrays 0 n s
       = s\<lparr>colorPlane := colorPlane (glDrawArrays 0 n s),
            depthPlane := depthPlane (glDrawArrays 0 n s),
            calls := calls s @ [DrawArrays 0 n]\<rparr>"
  by (simp add: renderParticles_def glDrawArrays_def glBindVertexArray_def
      glUniformMatrix4fv_def glUseProgram_def issue_def)

subsection \<open>The frame loop\<close>

lemma loop_body_paused:
  "paused f \<Longrightarrow>
   loop_body n mvp f st = Some \<lparr>lastTime = currentTime f, gl = display n mvp (gl st)\<rparr>"
  by (simp add: loop_body_def)

lemma loop_paused:
  assumes "\<forall>f\<in>set fs. paused f"
  shows "\<exists>st'. loop n mvp fs st = Some st'
           \<and> particleBuffer (gl st') = particleBuffer (gl st)
           \<and> lastTime st' = last (lastTime st # map currentTime fs)"
  using assms
proof (induction fs arbitrary: st)
  case Nil
  show ?case by simp
next
  case (Cons f fs)
  have p: "paused f" and rest: "\<forall>g\<in>set fs. paused g"
    using Cons.prems by simp_all
  from Cons.IH [OF rest, of "\<lparr>lastTime = currentTime f, gl = display n mvp (gl st)\<rparr>"]
  show ?case
    by (auto simp: loop_body_paused [OF p] particleBuffer_display)
qed

lemma loop_body_running:
  "\<not> paused g \<Longrightarrow>
   loop_body n mvp g st =
     (case runComputeShader n ((currentTime g - lastTime st) * simulationSpeed g) (gl st) of
        None \<Rightarrow> None
      | Some s \<Rightarrow> Some \<lparr>lastTime = currentTime g, gl = display n mvp s\<rparr>)"
  by (simp add: loop_body_def)

text \<open>
  C3. While the frames are paused no cell of the particle store changes (so no
  position does), whatever the clock readings of those frames are; and the
  first frame that is not paused runs the integration step with the time since
  the previous frame (the last paused one, or the loop's start when there was
  none) times the speed, not with the time that went by during the pause:
  \<^verbatim>\<open>lastTime\<close> is updated on every iteration, paused or not.
\<close>

theorem paused_frames_freeze_store:
  assumes "\<forall>f\<in>set fs. paused f" and "\<not> paused g"
  shows "\<exists>st'. loop n mvp fs st = Some st'
           \<and> particleBuffer (gl st') = particleBuffer (gl st)
           \<and> loop_body n mvp g st' =
               (case runComputeShader n
                       ((currentTime g - last (lastTime st # map currentTime fs))
                          * simulationSpeed g) (gl st') of
                  None \<Rightarrow> None
                | Some s \<Rightarrow> Some \<lparr>lastTime = currentTime g, gl = display n mvp s\<rparr>)"
proof -
  from loop_paused [OF assms(1), of n mvp st]
  obtain st' where st': "loop n mvp fs st = Some st'"
    "particleBuffer (gl st') = particleBuffer (gl st)"
    "lastTime st' = last (lastTime st # map currentTime fs)"
    by blast
  from loop_body_running [OF assms(2), of n mvp st'] st'(3)
  have "loop_body n mvp g st' =
               (case runComputeShader n
                       ((currentTime g - last (lastTime st # map currentTime fs))
                          * simulationSpeed g) (gl st') of
                  None \<Rightarrow> None
                | Some s \<Rightarrow> Some \<lparr>lastTime = currentTime g, gl = display n mvp s\<rparr>)"
    by simp
  with st'(1,2) show ?thesis by blast
qed

theorem paused_frames_freeze_store_witness:
  "list_all paused [\<lparr>currentTime = 5, paused = True, simulationSpeed = 1\<rparr>,
                    \<lparr>currentTime = 100, paused = True, simulationSpeed = 1\<rparr>]
   \<and> \<not> paused \<lparr>currentTime = 101, paused = False, simulationSpeed = 1\<rparr>
   \<and> (\<exists>st'. loop MAX_PARTICLES identity_mat4
                [\<lparr>currentTime = 5, paused = True, simulationSpeed = 1\<rparr>,
                 \<lparr>currentTime = 100, paused = True, simulationSpeed = 1\<rparr>]
                \<lparr>lastTime = 0, gl = initOpenGL MAX_PARTICLES driver_ok gl_initial\<rparr> = Some st'
          \<and> particleBuffer (gl st')
              = particleBuffer (initOpenGL MAX_PARTICLES driver_ok gl_initial)
          \<and> loop_body MAX_PARTICLES identity_mat4
                \<lparr>currentTime = 101, paused = False, simulationSpeed = 1\<rparr> st' =
               (case runComputeShader MAX_PARTICLES ((101 - 100) * 1) (gl st') of
                  None \<Rightarrow> None
                | Some s \<Rightarrow> Some \<lparr>lastTime = 101, gl = display MAX_PARTICLES identity_mat4 s\<rparr>))"
proof -
  have h1: "\<forall>f\<in>set [\<lparr>currentTime = 5, paused = True, simulationSpeed = 1\<rparr>,
               \<lparr>currentTime = 100, paused = True, simulationSpeed = 1\<rparr>]. paused f"
    by simp
  have h2: "\<not> paused \<lparr>currentTime = 101, paused = False, simulationSpeed = 1\<rparr>"
    by simp
  from paused_frames_freeze_store [OF h1 h2, of MAX_PARTICLES identity_mat4
      "\<lparr>lastTime = 0, gl = initOpenGL MAX_PARTICLES driver_ok gl_initial\<rparr>"]
  show ?thesis
    using h1 h2 by (simp cong: option.case_cong)
qed

subsection \<open>One invocation of the compute shader\<close>

lemma drop_list_update_outside:
  assumes "j < k \<or> k + m \<le> j"
  shows "take m (drop k (xs[j := v])) = take m (drop k xs)"
proof (rule nth_equalityI)
  show "length (take m (drop k (xs[j := v]))) = length (take m (drop k xs))"
    by simp
next
  fix i
  assume "i < length (take m (drop k (xs[j := v])))"
  then have i: "i < m" "k + i < length xs"
    by auto
  from assms i have "j \<noteq> k + i"
    by auto
  with i show "take m (drop k (xs[j := v])) ! i = take m (drop k xs) ! i"
    by (simp add: nth_list_update)
qed

lemma shader_main_writes:
  assumes "shader_main deltaTime gid buf = Some buf'"
  shows "gid * particle_stride + velocity_offset + 3 \<le> length buf
         \<and> buf' = buf[gid * particle_stride + position_offset :=
                        cell_add (buf ! (gid * particle_stride + position_offset))
                          (cell_mul (buf ! (gid * particle_stride + velocity_offset)) deltaTime),
                      gid * particle_stride + position_offset + 1 :=
                        cell_add (buf ! (gid * particle_stride + position_offset + 1))
                          (cell_mul (buf ! (gid * particle_stride + velocity_offset + 1))
                             deltaTime),
                      gid * particle_stride + position_offset + 2 :=
                        cell_add (buf ! (gid * particle_stride + position_offset + 2))
                          (cell_mul (buf ! (gid * particle_stride + velocity_offset + 2))
                             deltaTime)]"
proof (cases "gid * particle_stride + velocity_offset + 3 \<le> length buf")
  case True
  with assms show ?thesis
    unfolding shader_main_def Let_def by (simp only: if_True option.inject simp_thms)
next
  case False
  with assms show ?thesis
    unfolding shader_main_def Let_def by (simp only: if_False option.distinct)
qed

lemma shader_main_element_velocity:
  assumes "shader_main deltaTime gid buf = Some buf'"
  shows "element_velocity i buf' = element_velocity i buf"
proof -
  define k where "k = i * particle_stride + velocity_offset"
  define p where "p = gid * particle_stride + position_offset"
  have a: "p < k \<or> k + 3 \<le> p"
    unfolding p_def k_def particle_stride_def position_offset_def velocity_offset_def
    by presburger
  have b: "p + 1 < k \<or> k + 3 \<le> p + 1"
    unfolding p_def k_def particle_stride_def position_offset_def velocity_offset_def
    by presburger
  have c: "p + 2 < k \<or> k + 3 \<le> p + 2"
    unfolding p_def k_def particle_stride_def position_offset_def velocity_offset_def
    by presburger
  from shader_main_writes [OF assms] obtain x y z
    where "buf' = buf[p := x, p + 1 := y, p + 2 := z]"
    unfolding p_def by blast
  then show ?thesis
    unfolding element_velocity_def k_def [symmetric]
    by (simp only: drop_list_update_outside [OF a] drop_list_update_outside [OF b]
        drop_list_update_outside [OF c])
qed

lemma cell_add_mul_zero:
  "c \<noteq> None \<Longrightarrow> d \<noteq> None \<Longrightarrow> cell_add c (cell_mul d 0) = c"
  by (cases c; cases d) simp_all

lemma shader_main_zero:
  assumes "None \<notin> set buf" and "shader_main 0 gid buf = Some buf'"
  shows "buf' = buf"
proof -
  define p where "p = gid * particle_stride + position_offset"
  define v where "v = gid * particle_stride + velocity_offset"
  from shader_main_writes [OF assms(2)]
  have len: "v + 3 \<le> length buf"
    and eq: "buf' = buf[p := cell_add (buf ! p) (cell_mul (buf ! v) 0),
                        p + 1 := cell_add (buf ! (p + 1)) (cell_mul (buf ! (v + 1)) 0),
                        p + 2 := cell_add (buf ! (p + 2)) (cell_mul (buf ! (v + 2)) 0)]"
    unfolding p_def v_def by blast+
  have pv: "p + 4 = v"
    unfolding p_def v_def position_offset_def velocity_offset_def by simp
  have some: "buf ! j \<noteq> None" if "j < length buf" for j
    using assms(1) that by (metis nth_mem)
  have upd: "cell_add (buf ! j) (cell_mul (buf ! l) 0) = buf ! j"
    if "j < length buf" "l < length buf" for j l
    using some [OF that(1)] some [OF that(2)] by (rule cell_add_mul_zero)
  have u0: "cell_add (buf ! p) (cell_mul (buf ! v) 0) = buf ! p"
    using len pv by (intro upd) auto
  have u1: "cell_add (buf ! (p + 1)) (cell_mul (buf ! (v + 1)) 0) = buf ! (p + 1)"
    using len pv by (intro upd) auto
  have u2: "cell_add (buf ! (p + 2)) (cell_mul (buf ! (v + 2)) 0) = buf ! (p + 2)"
    using len pv by (intro upd) auto
  show ?thesis
    unfolding eq u0 u1 u2 by (simp only: list_update_id)
qed

subsection \<open>Barrier, speed multiplier and start-up failures\<close>

text \<open>
  C4, as the code has it. The claim: on every frame, also a paused one, the
  barrier is issued after any dispatch and before the draw. In the code
  \<^verbatim>\<open>glMemoryBarrier\<close> is the last command of \<^verbatim>\<open>runComputeShader\<close>, which the loop
  calls only when \<^verbatim>\<open>paused\<close> is false. So: a frame that is not paused issues the
  barrier immediately after the dispatch and before the draw; a paused frame
  issues neither dispatch nor barrier, only the commands of \<^verbatim>\<open>display\<close>.
\<close>

theorem barrier_only_after_dispatch:
  "\<exists>st'. loop_body MAX_PARTICLES mvp f st = Some st'
     \<and> calls (gl st') =
         calls (gl st)
         @ (if paused f then []
            else [UseProgram computeShaderProgram,
                  Uniform1f ((currentTime f - lastTime st) * simulationSpeed f),
                  DispatchCompute 0 1 1,
                  MemoryBarrier])
         @ [Clear, UseProgram renderShaderProgram, UniformMatrix4fv mvp, BindVertexArray,
            DrawArrays 0 MAX_PARTICLES, SwapBuffers, PollEvents]"
  using loop_body_no_groups [OF MAX_PARTICLES_groups, of mvp f st]
  by (auto simp: frame_commands_def MAX_PARTICLES_groups)

theorem barrier_only_after_dispatch_witness:
  "\<exists>st'. loop_body MAX_PARTICLES identity_mat4
            \<lparr>currentTime = 1, paused = False, simulationSpeed = 1\<rparr>
            \<lparr>lastTime = 0, gl = gl_initial\<rparr> = Some st'
     \<and> calls (gl st') =
         [UseProgram computeShaderProgram, Uniform1f 1, DispatchCompute 0 1 1, MemoryBarrier,
          Clear, UseProgram renderShaderProgram, UniformMatrix4fv identity_mat4,
          BindVertexArray, DrawArrays 0 MAX_PARTICLES, SwapBuffers, PollEvents]"
  using barrier_only_after_dispatch [of identity_mat4
      "\<lparr>currentTime = 1, paused = False, simulationSpeed = 1\<rparr>"
      "\<lparr>lastTime = 0, gl = gl_initial\<rparr>"]
  by (simp add: gl_initial_def)

text \<open>
  C4, the claim as stated fails: the program run for one paused frame issues the
  draw and no barrier at all.
\<close>

theorem paused_frame_draws_without_barrier:
  "map_option (calls \<circ> final)
     (main MAX_PARTICLES platform_ok identity_mat4
        [\<lparr>currentTime = 1, paused = True, simulationSpeed = 1\<rparr>])
   = Some [BindVertexArray, Clear, UseProgram renderShaderProgram,
           UniformMatrix4fv identity_mat4, BindVertexArray, DrawArrays 0 MAX_PARTICLES,
           SwapBuffers, PollEvents]
   \<and> MemoryBarrier \<notin> set [BindVertexArray, Clear, UseProgram renderShaderProgram,
           UniformMatrix4fv identity_mat4, BindVertexArray, DrawArrays 0 MAX_PARTICLES,
           SwapBuffers, PollEvents]"
proof -
  have ok: "glfwInit_ok platform_ok" "window_ok platform_ok"
    by (simp_all add: platform_ok_def)
  from main_no_groups [OF MAX_PARTICLES_groups ok, of identity_mat4
      "[\<lparr>currentTime = 1, paused = True, simulationSpeed = 1\<rparr>]"]
  show ?thesis
    by (auto simp: frame_commands_def)
qed

text \<open>
  C5, as the code has it. The claim: a negative speed multiplier is rejected
  before the loop starts, and a multiplier of 0 gives zero displacement. The
  code has no check of \<^verbatim>\<open>simulationSpeed\<close>: once GLFW and the window are there,
  \<^verbatim>\<open>main\<close> runs every frame and returns 0 whatever the multipliers of the frames
  are, and each frame that is not paused passes \<open>deltaTime * simulationSpeed\<close>
  to the integration step, negative values included. With a multiplier of 0
  the step leaves the store as it was; and one invocation of the shader with
  a time step of \<open>deltaTime * 0\<close> leaves a store of defined cells unchanged.
\<close>

theorem speed_multiplier_unchecked:
  "(glfwInit_ok pf \<and> window_ok pf \<longrightarrow>
      (\<exists>out. main MAX_PARTICLES pf mvp fs = Some out
         \<and> exit_code out = 0
         \<and> calls (final out)
             = BindVertexArray # loop_commands MAX_PARTICLES mvp (startTime pf) fs))
   \<and> (simulationSpeed f = 0 \<longrightarrow>
        (\<exists>st'. loop_body MAX_PARTICLES mvp f st = Some st'
           \<and> particleBuffer (gl st') = particleBuffer (gl st)))
   \<and> (None \<notin> set buf \<and> shader_main (deltaTime * 0) gid buf = Some buf' \<longrightarrow> buf' = buf)"
proof (intro conjI impI)
  assume "glfwInit_ok pf \<and> window_ok pf"
  then have ok: "glfwInit_ok pf" "window_ok pf"
    by simp_all
  from main_no_groups [OF MAX_PARTICLES_groups ok, of mvp fs]
  show "\<exists>out. main MAX_PARTICLES pf mvp fs = Some out
         \<and> exit_code out = 0
         \<and> calls (final out)
             = BindVertexArray # loop_commands MAX_PARTICLES mvp (startTime pf) fs"
    by blast
next
  from loop_body_no_groups [OF MAX_PARTICLES_groups, of mvp f st]
  show "\<exists>st'. loop_body MAX_PARTICLES mvp f st = Some st'
           \<and> particleBuffer (gl st') = particleBuffer (gl st)"
    by blast
next
  assume "None \<notin> set buf \<and> shader_main (deltaTime * 0) gid buf = Some buf'"
  then show "buf' = buf"
    using shader_main_zero [of buf gid buf'] by simp
qed

theorem speed_multiplier_unchecked_witness:
  "glfwInit_ok platform_ok \<and> window_ok platform_ok
   \<and> (\<exists>out. main MAX_PARTICLES platform_ok identity_mat4
                [\<lparr>currentTime = 1, paused = False, simulationSpeed = - 1\<rparr>] = Some out
          \<and> exit_code out = 0
          \<and> calls (final out)
              = BindVertexArray # loop_commands MAX_PARTICLES identity_mat4
                  (startTime platform_ok)
                  [\<lparr>currentTime = 1, paused = False, simulationSpeed = - 1\<rparr>])
   \<and> simulationSpeed \<lparr>currentTime = 1, paused = False, simulationSpeed = 0\<rparr> = 0
   \<and> (\<exists>st'. loop_body MAX_PARTICLES identity_mat4
                \<lparr>currentTime = 1, paused = False, simulationSpeed = 0\<rparr>
                \<lparr>lastTime = 0, gl = initOpenGL MAX_PARTICLES driver_ok gl_initial\<rparr> = Some st'
          \<and> particleBuffer (gl st')
              = particleBuffer (initOpenGL MAX_PARTICLES driver_ok gl_initial))
   \<and> None \<notin> set (data [(1, 2, 3), (4, 5, 6), (7, 8, 9)])
   \<and> shader_main (1 * 0) 0 (data [(1, 2, 3), (4, 5, 6), (7, 8, 9)])
       = Some (data [(1, 2, 3), (4, 5, 6), (7, 8, 9)])"
proof -
  have ok: "glfwInit_ok platform_ok \<and> window_ok platform_ok"
    by (simp add: platform_ok_def)
  have z: "simulationSpeed \<lparr>currentTime = 1, paused = False, simulationSpeed = 0\<rparr> = 0"
    by simp
  have d: "None \<notin> set (data [(1, 2, 3), (4, 5, 6), (7, 8, 9)])"
    by (simp add: data_def)
  obtain b where b: "shader_main (1 * 0) 0 (data [(1, 2, 3), (4, 5, 6), (7, 8, 9)]) = Some b"
    by (simp add: shader_main_def Let_def data_def particle_stride_def velocity_offset_def)
  note t = speed_multiplier_unchecked [of platform_ok identity_mat4
      "[\<lparr>currentTime = 1, paused = False, simulationSpeed = - 1\<rparr>]"
      "\<lparr>currentTime = 1, paused = False, simulationSpeed = 0\<rparr>"
      "\<lparr>lastTime = 0, gl = initOpenGL MAX_PARTICLES driver_ok gl_initial\<rparr>"
      "data [(1, 2, 3), (4, 5, 6), (7, 8, 9)]" 1 0 b]
  from t d b have "b = data [(1, 2, 3), (4, 5, 6), (7, 8, 9)]"
    by blast
  with t ok z d b show ?thesis
    by simp
qed

text \<open>
  C5, the claim as stated fails: with a multiplier of -1 the program enters the
  loop, runs the integration step with a time step of -1, and returns 0.
\<close>

theorem negative_speed_runs_the_loop:
  "map_option exit_code
     (main MAX_PARTICLES platform_ok identity_mat4
        [\<lparr>currentTime = 1, paused = False, simulationSpeed = - 1\<rparr>]) = Some 0
   \<and> map_option (calls \<circ> final)
       (main MAX_PARTICLES platform_ok identity_mat4
          [\<lparr>currentTime = 1, paused = False, simulationSpeed = - 1\<rparr>])
     = Some [BindVertexArray, UseProgram computeShaderProgram, Uniform1f (- 1),
             DispatchCompute 0 1 1, MemoryBarrier, Clear, UseProgram renderShaderProgram,
             UniformMatrix4fv identity_mat4, BindVertexArray, DrawArrays 0 MAX_PARTICLES,
             SwapBuffers, PollEvents]"
proof -
  have ok: "glfwInit_ok platform_ok" "window_ok platform_ok"
    by (simp_all add: platform_ok_def)
  have t0: "startTime platform_ok = 0"
    by (simp add: platform_ok_def)
  from main_no_groups [OF MAX_PARTICLES_groups ok, of identity_mat4
      "[\<lparr>currentTime = 1, paused = False, simulationSpeed = - 1\<rparr>]"]
  show ?thesis
    by (auto simp: frame_commands_def MAX_PARTICLES_groups t0)
qed

text \<open>
  C7, as the code has it. The claim: a failure to compile or link a shader is
  fatal at start-up and the frame loop is not entered. In the code
  \<^verbatim>\<open>checkShaderCompilation\<close> and the link checks only write to \<^verbatim>\<open>std::cerr\<close>: once
  GLFW and the window are there, \<^verbatim>\<open>main\<close> writes one diagnostic line for each
  failure the driver reports, then runs every frame and returns 0, whatever
  the driver's answers are.
\<close>

theorem shader_failure_logged_loop_runs:
  assumes "glfwInit_ok pf" and "window_ok pf"
  shows "\<exists>out. main MAX_PARTICLES pf mvp fs = Some out
           \<and> exit_code out = 0
           \<and> cerr (final out) = diagnostics (drv pf)
           \<and> calls (final out)
               = BindVertexArray # loop_commands MAX_PARTICLES mvp (startTime pf) fs"
  using main_no_groups [OF MAX_PARTICLES_groups assms, of mvp fs] by blast

theorem shader_failure_logged_loop_runs_witness:
  "\<exists>out. main MAX_PARTICLES
            \<lparr>glfwInit_ok = True, window_ok = True,
             drv = \<lparr>computeCompile = Failure ''syntax error'',
                    computeLink = Failure ''no compute stage'',
                    vertexCompile = Success, fragmentCompile = Success,
                    renderLink = Success\<rparr>,
             startTime = 0\<rparr>
            identity_mat4 [\<lparr>currentTime = 1, paused = False, simulationSpeed = 1\<rparr>]
          = Some out
     \<and> exit_code out = 0
     \<and> cerr (final out)
         = [''Error compiling Compute shader:'' @ newline @ ''syntax error'',
            ''Error linking compute shader program:'' @ newline @ ''no compute stage'']
     \<and> calls (final out)
         = [BindVertexArray, UseProgram computeShaderProgram, Uniform1f 1,
            DispatchCompute 0 1 1, MemoryBarrier, Clear, UseProgram renderShaderProgram,
            UniformMatrix4fv identity_mat4, BindVertexArray, DrawArrays 0 MAX_PARTICLES,
            SwapBuffers, PollEvents]"
  using shader_failure_logged_loop_runs [of
      "\<lparr>glfwInit_ok = True, window_ok = True,
        drv = \<lparr>computeCompile = Failure ''syntax error'',
               computeLink = Failure ''no compute stage'',
               vertexCompile = Success, fragmentCompile = Success,
               renderLink = Success\<rparr>,
        startTime = 0\<rparr>"
      identity_mat4 "[\<lparr>currentTime = 1, paused = False, simulationSpeed = 1\<rparr>]"]
  by (simp add: diagnostics_def frame_commands_def MAX_PARTICLES_groups)

text \<open>
  C7, the claim as stated fails: when the compute shader neither compiles nor
  links, the program still issues the dispatch and the draw of the frame and
  returns 0.
\<close>

theorem failed_kernel_does_not_stop_main:
  "map_option exit_code
     (main MAX_PARTICLES
        \<lparr>glfwInit_ok = True, window_ok = True,
         drv = \<lparr>computeCompile = Failure ''syntax error'',
                computeLink = Failure ''no compute stage'',
                vertexCompile = Success, fragmentCompile = Success,
                renderLink = Success\<rparr>,
         startTime = 0\<rparr>
        identity_mat4 [\<lparr>currentTime = 1, paused = False, simulationSpeed = 1\<rparr>])
   = Some 0
   \<and> map_option (calls \<circ> final)
       (main MAX_PARTICLES
          \<lparr>glfwInit_ok = True, window_ok = True,
           drv = \<lparr>computeCompile = Failure ''syntax error'',
                  computeLink = Failure ''no compute stage'',
                  vertexCompile = Success, fragmentCompile = Success,
                  renderLink = Success\<rparr>,
           startTime = 0\<rparr>
          identity_mat4 [\<lparr>currentTime = 1, paused = False, simulationSpeed = 1\<rparr>])
     = Some [BindVertexArray, UseProgram computeShaderProgram, Uniform1f 1,
             DispatchCompute 0 1 1, MemoryBarrier, Clear, UseProgram renderShaderProgram,
             UniformMatrix4fv identity_mat4, BindVertexArray, DrawArrays 0 MAX_PARTICLES,
             SwapBuffers, PollEvents]"
proof -
  have ok: "glfwInit_ok \<lparr>glfwInit_ok = True, window_ok = True,
         drv = \<lparr>computeCompile = Failure ''syntax error'',
                computeLink = Failure ''no compute stage'',
                vertexCompile = Success, fragmentCompile = Success,
                renderLink = Success\<rparr>,
         startTime = 0\<rparr>"
    "window_ok \<lparr>glfwInit_ok = True, window_ok = True,
         drv = \<lparr>computeCompile = Failure ''syntax error'',
                computeLink = Failure ''no compute stage'',
                vertexCompile = Success, fragmentCompile = Success,
                renderLink = Success\<rparr>,
         startTime = 0\<rparr>"
    by simp_all
  from main_no_groups [OF MAX_PARTICLES_groups ok, of identity_mat4
      "[\<lparr>currentTime = 1, paused = False, simulationSpeed = 1\<rparr>]"]
  show ?thesis
    by (auto simp: frame_commands_def MAX_PARTICLES_groups)
qed

subsection \<open>Velocities and uniformity\<close>

text \<open>
  C9. The integration step does not change the velocities: for the source's
  particle count, \<^verbatim>\<open>runComputeShader\<close> returns with the velocities region of the
  store as it was, for every store and every time step, and after any number
  of frames from start-up the velocities region still holds the initial
  velocity of every particle. The third part is about the shader itself, in its
  own addressing of the store: an invocation writes the \<^verbatim>\<open>position\<close> member of
  its element and leaves the \<^verbatim>\<open>velocity\<close> member of every element as it was.
\<close>

theorem step_keeps_velocities:
  "(\<exists>s'. runComputeShader MAX_PARTICLES deltaTime s = Some s'
      \<and> velocities MAX_PARTICLES (particleBuffer s')
          = velocities MAX_PARTICLES (particleBuffer s))
   \<and> (\<exists>st. loop MAX_PARTICLES mvp fs
               \<lparr>lastTime = t0, gl = initOpenGL MAX_PARTICLES d gl_initial\<rparr> = Some st
          \<and> velocities MAX_PARTICLES (particleBuffer (gl st))
              = data (replicate MAX_PARTICLES initialVelocity))
   \<and> (shader_main deltaTime gid buf = Some buf' \<longrightarrow>
        element_velocity i buf' = element_velocity i buf)"
proof (intro conjI impI)
  show "\<exists>s'. runComputeShader MAX_PARTICLES deltaTime s = Some s'
      \<and> velocities MAX_PARTICLES (particleBuffer s')
          = velocities MAX_PARTICLES (particleBuffer s)"
    by (simp add: runComputeShader_no_groups [OF MAX_PARTICLES_groups]
        particleBuffer_compute_commands)
next
  from loop_no_groups [OF MAX_PARTICLES_groups, of mvp fs
      "\<lparr>lastTime = t0, gl = initOpenGL MAX_PARTICLES d gl_initial\<rparr>"]
  show "\<exists>st. loop MAX_PARTICLES mvp fs
               \<lparr>lastTime = t0, gl = initOpenGL MAX_PARTICLES d gl_initial\<rparr> = Some st
          \<and> velocities MAX_PARTICLES (particleBuffer (gl st))
              = data (replicate MAX_PARTICLES initialVelocity)"
    by (auto simp: particleBuffer_initOpenGL velocities_append)
next
  assume "shader_main deltaTime gid buf = Some buf'"
  then show "element_velocity i buf' = element_velocity i buf"
    by (rule shader_main_element_velocity)
qed

theorem step_keeps_velocities_witness:
  "shader_main 2 0 (data [(1, 2, 3), (4, 5, 6), (7, 8, 9)])
     = Some (data [(11, 14, 17), (4, 5, 6), (7, 8, 9)])
   \<and> element_velocity 0 (data [(11, 14, 17), (4, 5, 6), (7, 8, 9)])
       = element_velocity 0 (data [(1, 2, 3), (4, 5, 6), (7, 8, 9)])
   \<and> element_velocity 0 (data [(1, 2, 3), (4, 5, 6), (7, 8, 9)]) = [Some 5, Some 6, Some 7]"
proof -
  have e: "shader_main 2 0 (data [(1, 2, 3), (4, 5, 6), (7, 8, 9)])
     = Some (data [(11, 14, 17), (4, 5, 6), (7, 8, 9)])"
    by (simp add: shader_main_def Let_def data_def particle_stride_def velocity_offset_def
        position_offset_def)
  from step_keeps_velocities [of 2 _ _ _ _ _ 0 "data [(1, 2, 3), (4, 5, 6), (7, 8, 9)]"
      "data [(11, 14, 17), (4, 5, 6), (7, 8, 9)]" 0] e
  have "element_velocity 0 (data [(11, 14, 17), (4, 5, 6), (7, 8, 9)])
       = element_velocity 0 (data [(1, 2, 3), (4, 5, 6), (7, 8, 9)])"
    by blast
  moreover have "element_velocity 0 (data [(1, 2, 3), (4, 5, 6), (7, 8, 9)])
                  = [Some 5, Some 6, Some 7]"
    by (simp add: element_velocity_def data_def particle_stride_def velocity_offset_def)
  ultimately show ?thesis
    using e by blast
qed

text \<open>
  C10. Uniformity: in every state the program reaches (after any list of
  frames, with any clock readings, pauses and speeds), all \<^verbatim>\<open>MAX_PARTICLES\<close>
  particles have the same position and the same velocity, namely the initial
  ones.
\<close>

theorem particles_stay_uniform:
  assumes "glfwInit_ok pf" and "window_ok pf"
  shows "\<exists>out. main MAX_PARTICLES pf mvp fs = Some out
           \<and> positions MAX_PARTICLES (particleBuffer (final out))
               = data (replicate MAX_PARTICLES initialPosition)
           \<and> velocities MAX_PARTICLES (particleBuffer (final out))
               = data (replicate MAX_PARTICLES initialVelocity)"
  using main_no_groups [OF MAX_PARTICLES_groups assms, of mvp fs]
  by (auto simp: positions_append velocities_append)

theorem particles_stay_uniform_witness:
  "\<exists>out. main MAX_PARTICLES platform_ok identity_mat4
            [\<lparr>currentTime = 1, paused = False, simulationSpeed = 1\<rparr>,
             \<lparr>currentTime = 3, paused = True, simulationSpeed = 1\<rparr>,
             \<lparr>currentTime = 4, paused = False, simulationSpeed = 2\<rparr>] = Some out
     \<and> positions MAX_PARTICLES (particleBuffer (final out))
         = data (replicate MAX_PARTICLES (0, 0, 0))
     \<and> velocities MAX_PARTICLES (particleBuffer (final out))
         = data (replicate MAX_PARTICLES (0.01, 0, 0))"
proof -
  have ok: "glfwInit_ok platform_ok" "window_ok platform_ok"
    by (simp_all add: platform_ok_def)
  from particles_stay_uniform [OF ok, of identity_mat4
      "[\<lparr>currentTime = 1, paused = False, simulationSpeed = 1\<rparr>,
        \<lparr>currentTime = 3, paused = True, simulationSpeed = 1\<rparr>,
        \<lparr>currentTime = 4, paused = False, simulationSpeed = 2\<rparr>]"]
  show ?thesis
    by (simp add: initialPosition_def initialVelocity_def)
qed

end
